theory Spec2Isabelle
  imports Complex_Main "HOL-Library.Multiset" "HOL-Library.Log_Nat"
begin

section \<open>Errors and primitive values\<close>

text \<open>
  The exceptions the modelled code raises. A function of the source that can raise returns
  a value of type \<open>error + 'a\<close>, with \<open>Inl\<close> for the exception.

  The floats of \<open>AverageMeter\<close> are IEEE doubles, with their rounding, their infinities and
  the OverflowError of Python's conversion from \<open>int\<close> (section Python floats). Time stamps
  and the elements of tensors are reals. The value \<open>NaN\<close> of a loss tensor is a constructor
  of its own, since the training loop branches on it.
\<close>

datatype error =
    EmptyMeterError
  | EmptyHistoryError
  | ValueError
  | KeyError
  | TypeError
  | ZeroDivisionError
  | OverflowError

section \<open>Python floats\<close>

text \<open>
  A Python \<open>float\<close> is an IEEE 754 binary64 value: a finite number, one of the two infinities
  or NaN. A finite double is given by its value, a rational; the two zeros are one value, as
  they are for \<open>==\<close> and for every operation below (Python raises on a division by either).
  An operation computes the exact result and rounds it to the nearest double, ties to the
  even significand.
\<close>

datatype double = Fin rat | PosInf | NegInf | NotANumber

text \<open>\<open>round_half_even x\<close>: the integer nearest to \<open>x\<close>, the even one of the two on a tie.\<close>

definition round_half_even :: "rat \<Rightarrow> int" where
  "round_half_even x =
     (let f = \<lfloor>x\<rfloor>; d = x - of_int f
      in if d < 1 / 2 then f else if 1 / 2 < d then f + 1 else if even f then f else f + 1)"

text \<open>
  \<open>floor_log2 q\<close>, for \<open>q > 0\<close>: the exponent \<open>k\<close> with \<open>2^k \<le> q < 2^(k+1)\<close>, from the bit
  lengths of the numerator and the denominator.
\<close>

definition floor_log2 :: "rat \<Rightarrow> int" where
  "floor_log2 q =
     (case quotient_of q of (a, b) \<Rightarrow>
        let d = bitlen a - bitlen b in if 2 powi d \<le> q then d else d - 1)"

text \<open>
  \<open>round_to_53 q\<close>: the nearest number with a significand of 53 bits and an exponent that
  is not below the one of the subnormal doubles (the least positive double is \<open>2^-1074\<close>),
  the exponent being unbounded above.
\<close>

definition round_to_53 :: "rat \<Rightarrow> rat" where
  "round_to_53 q =
     (if q = 0 then 0
      else let e = max (floor_log2 \<bar>q\<bar> - 52) (- 1074)
           in of_int (round_half_even (q / 2 powi e)) * 2 powi e)"

text \<open>
  \<open>round_double q\<close>: the double an operation returns for the exact result \<open>q\<close>. A result that
  rounds to \<open>2^1024\<close> or beyond overflows to an infinity.
\<close>

definition round_double :: "rat \<Rightarrow> double" where
  "round_double q =
     (let r = round_to_53 q
      in if 2 ^ 1024 \<le> r then PosInf else if r \<le> - (2 ^ 1024) then NegInf else Fin r)"

text \<open>
  The conversion of a Python \<open>int\<close> to a float, as \<open>float(n)\<close> and the arithmetic of a float
  with an \<open>int\<close> do it: correctly rounded, and an OverflowError instead of an infinity.
\<close>

definition int_to_double :: "int \<Rightarrow> error + double" where
  "int_to_double n =
     (let r = round_to_53 (of_int n)
      in if 2 ^ 1024 \<le> \<bar>r\<bar> then Inl OverflowError else Inr (Fin r))"

text \<open>Negation, addition and multiplication of doubles (\<open>-\<close>, \<open>+\<close>, \<open>*\<close>).\<close>

fun double_neg :: "double \<Rightarrow> double" where
  "double_neg (Fin a) = Fin (- a)"
| "double_neg PosInf = NegInf"
| "double_neg NegInf = PosInf"
| "double_neg NotANumber = NotANumber"

fun double_add :: "double \<Rightarrow> double \<Rightarrow> double" where
  "double_add NotANumber y = NotANumber"
| "double_add x NotANumber = NotANumber"
| "double_add (Fin a) (Fin b) = round_double (a + b)"
| "double_add (Fin a) y = y"
| "double_add x (Fin b) = x"
| "double_add x y = (if x = y then x else NotANumber)"

fun double_mul :: "double \<Rightarrow> double \<Rightarrow> double" where
  "double_mul NotANumber y = NotANumber"
| "double_mul x NotANumber = NotANumber"
| "double_mul (Fin a) (Fin b) = round_double (a * b)"
| "double_mul (Fin a) y = (if a = 0 then NotANumber else if 0 < a then y else double_neg y)"
| "double_mul x (Fin b) = (if b = 0 then NotANumber else if 0 < b then x else double_neg x)"
| "double_mul x y = (if x = y then PosInf else NegInf)"

text \<open>
  \<open>double_quotient x y\<close> is the IEEE quotient for a divisor that is not zero;
  \<open>double_div\<close> is Python's \<open>/\<close>, which raises a ZeroDivisionError on a zero divisor.
\<close>

fun double_quotient :: "double \<Rightarrow> double \<Rightarrow> double" where
  "double_quotient NotANumber y = NotANumber"
| "double_quotient x NotANumber = NotANumber"
| "double_quotient (Fin a) (Fin b) = round_double (a / b)"
| "double_quotient (Fin a) y = Fin 0"
| "double_quotient x (Fin b) = (if 0 < b then x else double_neg x)"
| "double_quotient x y = NotANumber"

definition double_div :: "double \<Rightarrow> double \<Rightarrow> error + double" where
  "double_div x y = (if y = Fin 0 then Inl ZeroDivisionError else Inr (double_quotient x y))"

section \<open>AverageMeter (utils/meters/average.py)\<close>

record AverageMeter =
  am_total :: double
  am_count :: int

definition AverageMeter_init :: "double \<Rightarrow> int \<Rightarrow> AverageMeter" where
  "AverageMeter_init tot cnt = \<lparr>am_total = tot, am_count = cnt\<rparr>"

text \<open>
  \<open>average\<close> and \<open>sum\<close> test \<open>not self._count\<close>, that is \<open>count = 0\<close>; \<open>average\<close> returns
  \<open>self._total / float(self._count)\<close>.
\<close>

definition AverageMeter_average :: "AverageMeter \<Rightarrow> error + double" where
  "AverageMeter_average self =
     (if am_count self = 0 then Inl EmptyMeterError
      else case int_to_double (am_count self) of
             Inl e \<Rightarrow> Inl e
           | Inr c \<Rightarrow> double_div (am_total self) c)"

definition AverageMeter_sum :: "AverageMeter \<Rightarrow> error + double" where
  "AverageMeter_sum self =
     (if am_count self = 0 then Inl EmptyMeterError else Inr (am_total self))"

text \<open>
  \<open>update(value, num_examples)\<close>: \<open>value\<close> is the float that \<open>float(value)\<close> yields; the
  product with the \<open>int\<close> converts it to a float first, which can raise. Nothing is assigned
  when it does.
\<close>

definition AverageMeter_update :: "AverageMeter \<Rightarrow> double \<Rightarrow> int \<Rightarrow> error + AverageMeter" where
  "AverageMeter_update self val num_examples =
     (case int_to_double num_examples of
        Inl e \<Rightarrow> Inl e
      | Inr n \<Rightarrow>
          Inr (self\<lparr>am_total := double_add (am_total self) (double_mul val n),
                    am_count := am_count self + num_examples\<rparr>))"

text \<open>
  A sequence of \<open>update(value, num_examples)\<close> calls, oldest first; it stops at the first
  exception.
\<close>

fun AverageMeter_updates :: "AverageMeter \<Rightarrow> (double \<times> int) list \<Rightarrow> error + AverageMeter" where
  "AverageMeter_updates self [] = Inr self"
| "AverageMeter_updates self ((v, n) # us) =
     (case AverageMeter_update self v n of
        Inl e \<Rightarrow> Inl e
      | Inr self' \<Rightarrow> AverageMeter_updates self' us)"

text \<open>
  The products \<open>float(value) * num_examples\<close> of a sequence of calls, or the first
  OverflowError.
\<close>

fun update_products :: "(double \<times> int) list \<Rightarrow> error + double list" where
  "update_products [] = Inr []"
| "update_products ((v, n) # us) =
     (case int_to_double n of
        Inl e \<Rightarrow> Inl e
      | Inr fn \<Rightarrow>
          (case update_products us of
             Inl e \<Rightarrow> Inl e
           | Inr ps \<Rightarrow> Inr (double_mul v fn # ps)))"

text \<open>The loop of \<open>merge\<close>: two local accumulators run over the meters.\<close>

fun AverageMeter_merge_loop :: "int \<times> double \<Rightarrow> AverageMeter list \<Rightarrow> int \<times> double" where
  "AverageMeter_merge_loop (c, t) [] = (c, t)"
| "AverageMeter_merge_loop (c, t) (meter # meters) =
     AverageMeter_merge_loop (c + am_count meter, double_add t (am_total meter)) meters"

definition AverageMeter_merge :: "AverageMeter \<Rightarrow> AverageMeter list \<Rightarrow> AverageMeter" where
  "AverageMeter_merge self meters =
     (case AverageMeter_merge_loop (am_count self, am_total self) meters of
        (c, t) \<Rightarrow> AverageMeter_init t c)"

definition AverageMeter_state_dict :: "AverageMeter \<Rightarrow> int \<times> double" where
  "AverageMeter_state_dict self = (am_count self, am_total self)"

definition AverageMeter_load_state_dict :: "AverageMeter \<Rightarrow> int \<times> double \<Rightarrow> AverageMeter" where
  "AverageMeter_load_state_dict self sd = self\<lparr>am_total := snd sd, am_count := fst sd\<rparr>"

section \<open>TensorMeter2 (utils/meters/tensor.py)\<close>

text \<open>
  A scalar read out of a tensor with \<open>.item()\<close>: a number or NaN. A tensor is the list of
  its elements in flattened order; the meters never look at its shape.
\<close>

datatype scalar = NaN | Num real

definition isnan :: "scalar \<Rightarrow> bool" where
  "isnan x \<longleftrightarrow> x = NaN"

type_synonym tensor = "real list"

text \<open>
  Modelled from the spec: \<open>LazyFlattedTensor\<close> (utils/tensor/flatted.py) is not among the
  sources. The spec has \<open>TensorMeter2\<close> hold "the full concatenated history of observed
  values", flattened, where "every update appends" and "reset/clear discards all stored
  values". The container is therefore the list of the stored elements: \<open>None\<close> builds the
  empty one, \<open>update\<close> appends, \<open>numel\<close> counts, \<open>values\<close> returns the elements.
\<close>

type_synonym LazyFlattedTensor = "real list"

definition LazyFlattedTensor_init :: "tensor option \<Rightarrow> LazyFlattedTensor" where
  "LazyFlattedTensor_init vs = (case vs of None \<Rightarrow> [] | Some t \<Rightarrow> t)"

definition LazyFlattedTensor_numel :: "LazyFlattedTensor \<Rightarrow> int" where
  "LazyFlattedTensor_numel self = int (length self)"

definition LazyFlattedTensor_update :: "LazyFlattedTensor \<Rightarrow> tensor \<Rightarrow> LazyFlattedTensor" where
  "LazyFlattedTensor_update self t = self @ t"

definition LazyFlattedTensor_values :: "LazyFlattedTensor \<Rightarrow> tensor" where
  "LazyFlattedTensor_values self = self"

text \<open>\<open>torch.Tensor.mean\<close> of a float tensor: NaN on the empty tensor.\<close>

definition tensor_mean :: "tensor \<Rightarrow> scalar" where
  "tensor_mean t = (if t = [] then NaN else Num (sum_list t / real (length t)))"

record TensorMeter2 =
  tm2_values :: LazyFlattedTensor
  tm2_count :: int

definition TensorMeter2_init :: "tensor option \<Rightarrow> TensorMeter2" where
  "TensorMeter2_init vs =
     (let v = LazyFlattedTensor_init vs
      in \<lparr>tm2_values = v, tm2_count = LazyFlattedTensor_numel v\<rparr>)"

definition TensorMeter2_update :: "TensorMeter2 \<Rightarrow> tensor \<Rightarrow> TensorMeter2" where
  "TensorMeter2_update self t =
     self\<lparr>tm2_values := LazyFlattedTensor_update (tm2_values self) t,
          tm2_count := tm2_count self + int (length t)\<rparr>"

definition TensorMeter2_mean :: "TensorMeter2 \<Rightarrow> error + scalar" where
  "TensorMeter2_mean self =
     (if tm2_count self = 0 then Inl EmptyMeterError
      else Inr (tensor_mean (LazyFlattedTensor_values (tm2_values self))))"

text \<open>
  The state dict of a \<open>TensorMeter2\<close> has the single key \<open>"values"\<close>; it is modelled by the
  tensor stored under that key. \<open>load_state_dict\<close> assigns \<open>self._values\<close> and nothing else.
\<close>

definition TensorMeter2_state_dict :: "TensorMeter2 \<Rightarrow> tensor" where
  "TensorMeter2_state_dict self = LazyFlattedTensor_values (tm2_values self)"

definition TensorMeter2_load_state_dict :: "TensorMeter2 \<Rightarrow> tensor \<Rightarrow> TensorMeter2" where
  "TensorMeter2_load_state_dict self sd = self\<lparr>tm2_values := LazyFlattedTensor_init (Some sd)\<rparr>"

definition TensorMeter2_equal :: "TensorMeter2 \<Rightarrow> TensorMeter2 \<Rightarrow> bool" where
  "TensorMeter2_equal self other \<longleftrightarrow> TensorMeter2_state_dict self = TensorMeter2_state_dict other"

section \<open>GenericHistory (utils/history/generic.py)\<close>

text \<open>
  \<open>collections.deque\<close> with a \<open>maxlen\<close>: \<open>append\<close> adds on the right and, when the length
  then exceeds \<open>maxlen\<close>, drops the leftmost element; the constructor appends the elements
  of the iterable one by one.
\<close>

definition deque_append :: "int \<Rightarrow> 'a list \<Rightarrow> 'a \<Rightarrow> 'a list" where
  "deque_append maxlen d x =
     (let d' = d @ [x] in if int (length d') > maxlen then tl d' else d')"

definition deque_init :: "'a list \<Rightarrow> int \<Rightarrow> 'a list" where
  "deque_init elements maxlen = foldl (deque_append maxlen) [] elements"

record 'v GenericHistory =
  gh_name :: string
  gh_history :: "(int option \<times> 'v) list"
  gh_max_size :: int

definition GenericHistory_init ::
  "string \<Rightarrow> (int option \<times> 'v) list \<Rightarrow> int \<Rightarrow> error + 'v GenericHistory" where
  "GenericHistory_init name elements max_size =
     (if max_size \<le> 0 then Inl ValueError
      else Inr \<lparr>gh_name = name, gh_history = deque_init elements max_size,
                gh_max_size = max_size\<rparr>)"

definition add_value :: "'v GenericHistory \<Rightarrow> 'v \<Rightarrow> int option \<Rightarrow> 'v GenericHistory" where
  "add_value self val step =
     self\<lparr>gh_history := deque_append (gh_max_size self) (gh_history self) (step, val)\<rparr>"

definition get_recent_history :: "'v GenericHistory \<Rightarrow> (int option \<times> 'v) list" where
  "get_recent_history self = gh_history self"

definition is_empty :: "'v GenericHistory \<Rightarrow> bool" where
  "is_empty self \<longleftrightarrow> gh_history self = []"

definition get_last_value :: "'v GenericHistory \<Rightarrow> error + 'v" where
  "get_last_value self =
     (if is_empty self then Inl EmptyHistoryError else Inr (snd (last (gh_history self))))"

text \<open>A sequence of \<open>add_value(value, step)\<close> calls, oldest first.\<close>

fun add_values :: "'v GenericHistory \<Rightarrow> ('v \<times> int option) list \<Rightarrow> 'v GenericHistory" where
  "add_values self [] = self"
| "add_values self ((v, s) # calls) = add_values (add_value self v s) calls"

section \<open>PeriodicCondition (utils/events/conditions.py)\<close>

text \<open>
  Modelled from the spec: the module \<open>gravitorch.utils.events\<close> that defines
  \<open>PeriodicCondition\<close> is not among the sources; only its tests are
  (tests/unit/utils/events/test_conditions.py). The data model of the spec has the condition
  be "a pure counter starting at call 0, true exactly every freq-th call (1-indexed: calls
  1, freq+1, 2\<cdot>freq+1, \<dots>)", with \<open>freq > 0\<close>, a non-positive frequency being a
  configuration error at construction; the tests expect \<open>True\<close> on the first call for the
  frequencies 1, 2 and 3. So the counter is 0 at the first call, the condition is read off the
  counter, and the counter is incremented afterwards.
\<close>

record PeriodicCondition =
  pc_freq :: int
  pc_step :: int

definition PeriodicCondition_init :: "int \<Rightarrow> error + PeriodicCondition" where
  "PeriodicCondition_init freq =
     (if freq \<le> 0 then Inl ValueError else Inr \<lparr>pc_freq = freq, pc_step = 0\<rparr>)"

definition PeriodicCondition_call :: "PeriodicCondition \<Rightarrow> bool \<times> PeriodicCondition" where
  "PeriodicCondition_call self =
     (pc_step self mod pc_freq self = 0, self\<lparr>pc_step := pc_step self + 1\<rparr>)"

text \<open>\<open>[condition() for _ in range(n)]\<close>\<close>

fun PeriodicCondition_calls :: "PeriodicCondition \<Rightarrow> nat \<Rightarrow> bool list" where
  "PeriodicCondition_calls self 0 = []"
| "PeriodicCondition_calls self (Suc n) =
     (case PeriodicCondition_call self of (b, self') \<Rightarrow> b # PeriodicCondition_calls self' n)"

text \<open>
  The reading of section 4.4 of the spec, word for word: the counter is incremented on every
  invocation, is 1 on the first call, and the result is \<open>counter % freq == 0\<close>.
\<close>

definition PeriodicCondition_call_as_worded :: "PeriodicCondition \<Rightarrow> bool \<times> PeriodicCondition" where
  "PeriodicCondition_call_as_worded self =
     (let self' = self\<lparr>pc_step := pc_step self + 1\<rparr>
      in (pc_step self' mod pc_freq self' = 0, self'))"

fun PeriodicCondition_calls_as_worded :: "PeriodicCondition \<Rightarrow> nat \<Rightarrow> bool list" where
  "PeriodicCondition_calls_as_worded self 0 = []"
| "PeriodicCondition_calls_as_worded self (Suc n) =
     (case PeriodicCondition_call_as_worded self of
        (b, self') \<Rightarrow> b # PeriodicCondition_calls_as_worded self' n)"

section \<open>BatchLoadingTimer (utils/timing.py)\<close>


























section \<open>Training loops (loops/training)\<close>

text \<open>
  A configuration dict is an association list from string keys to Python values;
  \<open>clip_grad.get(key, default)\<close> and \<open>clip_grad[key]\<close> read it.
\<close>

datatype pyval = PyStr string | PyInt int | PyFloat real

type_synonym pydict = "(string \<times> pyval) list"

definition dict_get :: "pydict \<Rightarrow> string \<Rightarrow> pyval \<Rightarrow> pyval" where
  "dict_get d key dflt = (case map_of d key of None \<Rightarrow> dflt | Some v \<Rightarrow> v)"

text \<open>The two clipping functions of \<open>torch.nn.utils\<close>.\<close>

datatype clip_fn = Clip_grad_value | Clip_grad_norm

text \<open>\<open>VanillaTrainingLoop._setup_clip_grad\<close>\<close>

definition setup_clip_grad :: "pydict \<Rightarrow> error + (clip_fn option \<times> pyval list)" where
  "setup_clip_grad clip_grad =
     (if clip_grad = [] then Inr (None, [])
      else
        case map_of clip_grad ''name'' of None \<Rightarrow> Inl KeyError
        | Some name \<Rightarrow>
          if name = PyStr ''clip_grad_value''
          then Inr (Some Clip_grad_value, [dict_get clip_grad ''clip_value'' (PyFloat 0.25)])
          else if name = PyStr ''clip_grad_norm''
          then Inr (Some Clip_grad_norm,
                    [dict_get clip_grad ''max_norm'' (PyInt 1),
                     dict_get clip_grad ''norm_type'' (PyInt 2)])
          else Inl ValueError)"

text \<open>
  The loop object. \<open>BaseBasicTrainingLoop.__init__\<close> resolves \<open>clip_grad or {}\<close> before it sets
  up the observer and the profiler (both external factories, left out);
  \<open>VanillaTrainingLoop.__init__\<close> calls it first, so an exception of \<open>_setup_clip_grad\<close>
  leaves no loop object.
\<close>

record VanillaTrainingLoop =
  tl_tag :: string
  tl_clip_grad_fn :: "clip_fn option"
  tl_clip_grad_args :: "pyval list"
  tl_set_grad_to_none :: bool

definition VanillaTrainingLoop_init ::
  "bool \<Rightarrow> string \<Rightarrow> pydict option \<Rightarrow> error + VanillaTrainingLoop" where
  "VanillaTrainingLoop_init set_grad_to_none tag clip_grad =
     (case setup_clip_grad (case clip_grad of None \<Rightarrow> [] | Some d \<Rightarrow> d) of
        Inl e \<Rightarrow> Inl e
      | Inr (fn, args) \<Rightarrow>
          Inr \<lparr>tl_tag = tag, tl_clip_grad_fn = fn, tl_clip_grad_args = args,
               tl_set_grad_to_none = set_grad_to_none\<rparr>)"

datatype EngineEvents =
    TRAIN_EPOCH_STARTED
  | TRAIN_EPOCH_COMPLETED
  | TRAIN_ITERATION_STARTED
  | TRAIN_FORWARD_COMPLETED
  | TRAIN_BACKWARD_COMPLETED
  | TRAIN_ITERATION_COMPLETED

text \<open>
  What one call of \<open>_train_one_batch\<close> does to its collaborators, in order: the engine, the
  optimizer, the model, the loss tensor, the clipping function and the logger.
\<close>

datatype effect =
    Fire_event EngineEvents
  | Zero_grad bool
  | Forward
  | Logger_warning
  | Backward
  | Clip_grad clip_fn "pyval list"
  | Optimizer_step

definition LOSS :: string where
  "LOSS = ''loss''"

type_synonym model_output = "(string \<times> scalar) list"

text \<open>The effects of \<open>if self._clip_grad_fn: self._clip_grad_fn(model.parameters(), *args)\<close>\<close>

definition clip_effects :: "VanillaTrainingLoop \<Rightarrow> effect list" where
  "clip_effects self =
     (case tl_clip_grad_fn self of None \<Rightarrow> []
      | Some fn \<Rightarrow> [Clip_grad fn (tl_clip_grad_args self)])"

text \<open>
  \<open>VanillaTrainingLoop._train_one_batch\<close>: the model is the function from the batch (as the
  device placement hands it over) to its output dict; the result is the list of effects and
  the returned dict, or the KeyError of \<open>output[ct.LOSS]\<close>.
\<close>

definition train_one_batch ::
  "VanillaTrainingLoop \<Rightarrow> ('b \<Rightarrow> model_output) \<Rightarrow> 'b \<Rightarrow> effect list \<times> (error + model_output)" where
  "train_one_batch self model batch =
     (let forward = [Fire_event TRAIN_ITERATION_STARTED, Zero_grad (tl_set_grad_to_none self),
                     Forward, Fire_event TRAIN_FORWARD_COMPLETED];
          out = model batch
      in case map_of out LOSS of
           None \<Rightarrow> (forward, Inl KeyError)
         | Some loss \<Rightarrow>
             if isnan loss
             then (forward @ [Logger_warning, Fire_event TRAIN_ITERATION_COMPLETED], Inr out)
             else (forward @ [Backward] @ clip_effects self @
                   [Fire_event TRAIN_BACKWARD_COMPLETED, Optimizer_step,
                    Fire_event TRAIN_ITERATION_COMPLETED],
                   Inr out))"

text \<open>
  \<open>AccelerateTrainingLoop._train_one_batch\<close>, the sibling of the loop above: a NaN loss skips
  the backward pass only.
\<close>

definition accelerate_train_one_batch ::
  "VanillaTrainingLoop \<Rightarrow> ('b \<Rightarrow> model_output) \<Rightarrow> 'b \<Rightarrow> effect list \<times> (error + model_output)" where
  "accelerate_train_one_batch self model batch =
     (let forward = [Fire_event TRAIN_ITERATION_STARTED, Zero_grad (tl_set_grad_to_none self),
                     Forward, Fire_event TRAIN_FORWARD_COMPLETED];
          out = model batch
      in case map_of out LOSS of
           None \<Rightarrow> (forward, Inl KeyError)
         | Some loss \<Rightarrow>
             (forward @ (if \<not> isnan loss then [Backward] else [Logger_warning]) @
              clip_effects self @
              [Fire_event TRAIN_BACKWARD_COMPLETED, Optimizer_step,
               Fire_event TRAIN_ITERATION_COMPLETED],
              Inr out))"

text \<open>The events of a list of effects, in order.\<close>

fun fired_events :: "effect list \<Rightarrow> EngineEvents list" where
  "fired_events [] = []"
| "fired_events (Fire_event e # es) = e # fired_events es"
| "fired_events (_ # es) = fired_events es"

text \<open>\<open>is_clip e\<close>: the effect is a call of a clipping function.\<close>

fun is_clip :: "effect \<Rightarrow> bool" where
  "is_clip (Clip_grad _ _) = True"
| "is_clip _ = False"

text \<open>\<open>index_of p es\<close>: the position of the first effect satisfying \<open>p\<close>, if there is one.\<close>

fun index_of :: "(effect \<Rightarrow> bool) \<Rightarrow> effect list \<Rightarrow> nat option" where
  "index_of p [] = None"
| "index_of p (e # es) =
     (if p e then Some 0 else (case index_of p es of None \<Rightarrow> None | Some i \<Rightarrow> Some (Suc i)))"

text \<open>
  \<open>precedes p q es\<close>: both kinds of effect occur in \<open>es\<close>, and the first \<open>p\<close> comes before
  the first \<open>q\<close>.
\<close>

definition precedes :: "(effect \<Rightarrow> bool) \<Rightarrow> (effect \<Rightarrow> bool) \<Rightarrow> effect list \<Rightarrow> bool" where
  "precedes p q es =
     (case (index_of p es, index_of q es) of (Some i, Some j) \<Rightarrow> i < j | _ \<Rightarrow> False)"

section \<open>Properties of the floats\<close>


lemma powi2_pos: "(0::rat) < 2 powi k"
  by (simp add: power_int_def)

lemma powi2_mono: "k \<le> l \<Longrightarrow> (2::rat) powi k \<le> 2 powi l"
  by (rule power_int_increasing) simp_all

lemma powi2_less_imp: "(2::rat) powi k < 2 powi l \<Longrightarrow> k < l"
  using powi2_mono [of l k] by (cases "k < l") auto

lemma bitlen_powi_bounds:
  assumes "0 < (a::int)"
  shows "(2::rat) powi (bitlen a - 1) \<le> of_int a" and "(of_int a :: rat) < 2 powi bitlen a"
proof -
  from bitlen_bounds [OF assms] have lo: "2 ^ nat (bitlen a - 1) \<le> a" and hi: "a < 2 ^ nat (bitlen a)"
    by simp_all
  have b1: "1 \<le> bitlen a" using assms by (simp add: bitlen_alt_def) 
  have "(2::rat) powi (bitlen a - 1) = 2 ^ nat (bitlen a - 1)"
    using b1 by (simp add: power_int_def)
  also have "\<dots> = of_int (2 ^ nat (bitlen a - 1))" by simp
  also have "\<dots> \<le> of_int a" using lo by (simp only: of_int_le_iff)
  finally show "(2::rat) powi (bitlen a - 1) \<le> of_int a" .
  have "(of_int a :: rat) < of_int (2 ^ nat (bitlen a))" using hi by (simp only: of_int_less_iff)
  also have "\<dots> = 2 powi bitlen a" using b1 by (simp add: power_int_def)
  finally show "(of_int a :: rat) < 2 powi bitlen a" .
qed

lemma floor_log2_bounds:
  assumes "0 < q"
  shows "2 powi floor_log2 q \<le> q \<and> q < 2 powi (floor_log2 q + 1)"
proof -
  obtain a b where ab: "quotient_of q = (a, b)" by (cases "quotient_of q")
  then have b: "0 < b" and q: "q = of_int a / of_int b"
    using quotient_of_denom_pos [of q a b] quotient_of_div [of q a b] by simp_all
  with assms have a: "0 < a" by (simp add: zero_less_divide_iff)
  note A = bitlen_powi_bounds [OF a] and B = bitlen_powi_bounds [OF b]
  let ?d = "bitlen a - bitlen b"
  have bpos: "(0::rat) < of_int b" using b by simp
  have up: "q < 2 powi (?d + 1)"
  proof -
    have "of_int a < (2::rat) powi bitlen a" by (rule A(2))
    also have "\<dots> = 2 powi (?d + 1) * 2 powi (bitlen b - 1)"
      by (simp add: power_int_add [symmetric])
    also have "\<dots> \<le> 2 powi (?d + 1) * of_int b"
      using B(1) powi2_pos [of "?d + 1"] by (simp add: mult_left_mono)
    finally show ?thesis using bpos by (simp add: q pos_divide_less_eq)
  qed
  have lo: "2 powi (?d - 1) \<le> q"
  proof -
    have "(2::rat) powi (?d - 1) * of_int b \<le> 2 powi (?d - 1) * 2 powi bitlen b"
      using B(2) powi2_pos [of "?d - 1"] by (simp add: mult_left_mono less_imp_le)
    also have "\<dots> = 2 powi (bitlen a - 1)" by (simp add: power_int_add [symmetric])
    also have "\<dots> \<le> of_int a" by (rule A(1))
    finally show ?thesis using bpos by (simp add: q pos_le_divide_eq)
  qed
  show ?thesis
  proof (cases "2 powi ?d \<le> q")
    case True
    then have "floor_log2 q = ?d" by (simp add: floor_log2_def ab)
    with True up show ?thesis by simp
  next
    case False
    then have "floor_log2 q = ?d - 1" by (simp add: floor_log2_def ab)
    with False lo show ?thesis by simp
  qed
qed

lemma floor_log2_unique:
  assumes "2 powi k \<le> q" and "q < 2 powi (k + 1)"
  shows "floor_log2 q = k"
proof -
  have "0 < q" using powi2_pos [of k] assms(1) by (rule less_le_trans)
  from floor_log2_bounds [OF this]
  have 1: "2 powi floor_log2 q \<le> q" and 2: "q < 2 powi (floor_log2 q + 1)" by simp_all
  from 1 assms(2) have "(2::rat) powi floor_log2 q < 2 powi (k + 1)" by simp
  then have "floor_log2 q < k + 1" by (rule powi2_less_imp)
  moreover from assms(1) 2 have "(2::rat) powi k < 2 powi (floor_log2 q + 1)" by simp
  then have "k < floor_log2 q + 1" by (rule powi2_less_imp)
  ultimately show ?thesis by simp
qed

lemma round_half_even_of_int: "round_half_even (of_int k) = k"
  by (simp add: round_half_even_def)

lemma round_to_53_representable:
  assumes q: "q = of_int m * 2 powi e" and m: "\<bar>m\<bar> < 2 ^ 53" and e: "- 1074 \<le> e"
  shows "round_to_53 q = q"
proof (cases "q = 0")
  case True
  then show ?thesis by (simp add: round_to_53_def)
next
  case False
  then have aq: "0 < \<bar>q\<bar>" by simp
  let ?f = "floor_log2 \<bar>q\<bar>"
  let ?E = "max (?f - 52) (- 1074)"
  from floor_log2_bounds [OF aq] have "2 powi ?f \<le> \<bar>q\<bar>" by simp
  also have "\<bar>q\<bar> = of_int \<bar>m\<bar> * 2 powi e"
    using powi2_pos [of e] by (simp add: q abs_mult)
  also have "\<dots> < 2 ^ 53 * 2 powi e"
  proof -
    have "(of_int \<bar>m\<bar> :: rat) < of_int (2 ^ 53)" using m by (simp only: of_int_less_iff)
    then show ?thesis using powi2_pos [of e] by simp
  qed
  also have "\<dots> = 2 powi (53 + e)" by (simp add: power_int_add)
  finally have "?f < 53 + e" by (rule powi2_less_imp)
  with e have E: "?E \<le> e" by simp
  have "q / 2 powi ?E = of_int m * 2 powi (e - ?E)"
    by (simp add: q power_int_diff)
  also have "\<dots> = of_int (m * 2 ^ nat (e - ?E))"
    using E by (simp add: power_int_def)
  finally have "q / 2 powi ?E = of_int (m * 2 ^ nat (e - ?E))" .
  then have "round_half_even (q / 2 powi ?E) = m * 2 ^ nat (e - ?E)"
    by (simp only: round_half_even_of_int)
  then have "round_to_53 q = of_int (m * 2 ^ nat (e - ?E)) * 2 powi ?E"
    using False by (simp add: round_to_53_def Let_def)
  also have "\<dots> = of_int m * (2 powi (e - ?E) * 2 powi ?E)"
    using E by (simp add: power_int_def)
  also have "\<dots> = q" by (simp add: q power_int_add [symmetric])
  finally show ?thesis .
qed

lemma round_to_53_int:
  assumes "\<bar>n\<bar> < 2 ^ 53"
  shows "round_to_53 (of_int n) = of_int n"
  by (rule round_to_53_representable [where m = n and e = 0]) (use assms in simp_all)

lemma double_add_commute: "double_add x y = double_add y x"
  by (cases x; cases y) (simp_all add: add.commute)

lemma round_double_representable:
  assumes q: "q = of_int m * 2 powi e" and m: "\<bar>m\<bar> < 2 ^ 53" and e: "- 1074 \<le> e" "e \<le> 971"
  shows "round_double q = Fin q"
proof -
  have r: "round_to_53 q = q" using q m e(1) by (rule round_to_53_representable)
  have "\<bar>q\<bar> = of_int \<bar>m\<bar> * 2 powi e"
    using powi2_pos [of e] by (simp add: q abs_mult)
  also have "\<dots> < 2 ^ 53 * 2 powi e"
  proof -
    have "(of_int \<bar>m\<bar> :: rat) < of_int (2 ^ 53)" using m by (simp only: of_int_less_iff)
    then show ?thesis using powi2_pos [of e] by simp
  qed
  also have "\<dots> = 2 powi (53 + e)" by (simp add: power_int_add)
  also have "\<dots> \<le> 2 powi 1024" using e(2) by (intro powi2_mono) simp
  finally have "\<bar>q\<bar> < 2 ^ 1024" by simp
  then have "\<not> 2 ^ 1024 \<le> q" "\<not> q \<le> - (2 ^ 1024)" by linarith+
  then show ?thesis by (simp add: round_double_def r)
qed

lemma round_double_int:
  assumes "\<bar>n\<bar> < 2 ^ 53"
  shows "round_double (of_int n) = Fin (of_int n)"
  by (rule round_double_representable [where m = n and e = 0]) (use assms in simp_all)

lemma int_to_double_small:
  assumes "\<bar>n\<bar> < 2 ^ 53"
  shows "int_to_double n = Inr (Fin (of_int n))"
proof -
  have "(of_int \<bar>n\<bar> :: rat) < of_int (2 ^ 53)" using assms by (simp only: of_int_less_iff)
  then have "\<bar>of_int n :: rat\<bar> < 2 ^ 1024" by simp
  then show ?thesis by (simp add: int_to_double_def round_to_53_int [OF assms])
qed

lemma round_half_even_cases:
  "round_half_even x = \<lfloor>x\<rfloor> \<or> round_half_even x = \<lfloor>x\<rfloor> + 1"
  by (simp add: round_half_even_def Let_def)

lemma round_half_even_nonzero:
  assumes "1 \<le> \<bar>x\<bar>"
  shows "round_half_even x \<noteq> 0"
proof (cases "0 \<le> x")
  case True
  with assms have "1 \<le> x" by simp
  then have "1 \<le> \<lfloor>x\<rfloor>" by (simp add: le_floor_iff)
  with round_half_even_cases [of x] show ?thesis by linarith
next
  case False
  with assms have x: "x \<le> - 1" by simp
  then have f: "\<lfloor>x\<rfloor> \<le> - 1" by (simp add: floor_le_iff)
  show ?thesis
  proof (cases "\<lfloor>x\<rfloor> = - 1")
    case True
    then have "- 1 \<le> x" using of_int_floor_le [of x] by simp
    with x have "x = of_int (- 1)" by simp
    then show ?thesis by (simp only: round_half_even_of_int)
  next
    case False
    with f have "\<lfloor>x\<rfloor> \<le> - 2" by linarith
    with round_half_even_cases [of x] show ?thesis by linarith
  qed
qed

lemma round_to_53_int_nonzero:
  assumes "n \<noteq> 0"
  shows "round_to_53 (of_int n) \<noteq> 0"
proof -
  let ?q = "of_int n :: rat"
  let ?f = "floor_log2 \<bar>?q\<bar>"
  have q1: "1 \<le> \<bar>?q\<bar>"
  proof -
    have "1 \<le> \<bar>n\<bar>" using assms by simp
    then have "(of_int 1 :: rat) \<le> of_int \<bar>n\<bar>" by (simp only: of_int_le_iff)
    then show ?thesis by simp
  qed
  then have pos: "0 < \<bar>?q\<bar>" by simp
  from floor_log2_bounds [OF pos]
  have lo: "2 powi ?f \<le> \<bar>?q\<bar>" and hi: "\<bar>?q\<bar> < 2 powi (?f + 1)" by simp_all
  from q1 hi have "(2::rat) powi 0 < 2 powi (?f + 1)" by simp
  then have f0: "0 \<le> ?f" using powi2_less_imp [of 0 "?f + 1"] by simp
  then have E: "max (?f - 52) (- 1074) = ?f - 52" by simp
  have "(1::rat) \<le> 2 powi 52" by simp
  also have "\<dots> = 2 powi ?f / 2 powi (?f - 52)" by (simp add: power_int_diff)
  also have "\<dots> \<le> \<bar>?q\<bar> / 2 powi (?f - 52)"
    using lo powi2_pos [of "?f - 52"] by (simp add: divide_right_mono)
  also have "\<dots> = \<bar>?q / 2 powi (?f - 52)\<bar>"
    using powi2_pos [of "?f - 52"] by (simp add: abs_divide)
  finally have "round_half_even (?q / 2 powi (?f - 52)) \<noteq> 0" by (rule round_half_even_nonzero)
  moreover have "?q \<noteq> 0" using assms by simp
  ultimately show ?thesis
    using powi2_pos [of "?f - 52"] by (simp add: round_to_53_def Let_def E)
qed

lemma int_to_double_nonzero:
  assumes "n \<noteq> 0" and "int_to_double n = Inr c"
  shows "c \<noteq> Fin 0"
  using assms round_to_53_int_nonzero [of n]
  by (auto simp: int_to_double_def Let_def split: if_splits)

lemma floor_rat_numeral_div:
  "\<lfloor>(numeral a :: rat) / numeral b\<rfloor> = numeral a div numeral b"
  using floor_divide_of_int_eq [of "numeral a" "numeral b", where ?'a = rat] by simp

lemma round_to_53_1e16_plus_1: "round_to_53 (10 ^ 16 + 1) = 10 ^ 16"
proof -
  have f: "floor_log2 10000000000000001 = 53"
    by (rule floor_log2_unique) simp_all
  show ?thesis
    by (simp add: round_to_53_def f round_half_even_def Let_def floor_rat_numeral_div)
qed

lemma round_double_1e16_plus_1: "round_double (10 ^ 16 + 1) = Fin (10 ^ 16)"
  unfolding round_double_def round_to_53_1e16_plus_1 by simp

lemma round_double_1e16: "round_double (10 ^ 16) = Fin (10 ^ 16)"
  by (rule round_double_representable [where m = 152587890625 and e = 16]) simp_all

lemma int_to_double_overflow: "int_to_double (2 ^ 1024) = Inl OverflowError"
proof -
  have "round_to_53 (of_int (2 ^ 1024)) = of_int (2 ^ 1024)"
    by (rule round_to_53_representable [where m = 1 and e = 1024]) simp_all
  then show ?thesis by (simp add: int_to_double_def)
qed

lemma int_to_double_2p1023: "int_to_double (2 ^ 1023) = Inr (Fin (2 ^ 1023))"
proof -
  have "round_to_53 (of_int (2 ^ 1023)) = of_int (2 ^ 1023)"
    by (rule round_to_53_representable [where m = 1 and e = 1023]) simp_all
  then show ?thesis by (simp add: int_to_double_def)
qed

lemma round_double_0: "round_double 0 = Fin 0"
  by (simp add: round_double_def round_to_53_def)

lemma round_double_1: "round_double 1 = Fin 1"
  using round_double_int [of 1] by simp

lemma round_double_numeral:
  "(numeral k :: int) < 2 ^ 53 \<Longrightarrow> round_double (numeral k) = Fin (numeral k)"
  using round_double_int [of "numeral k"] by simp

lemma int_to_double_1: "int_to_double 1 = Inr (Fin 1)"
  using int_to_double_small [of 1] by simp

lemma int_to_double_numeral:
  "(numeral k :: int) < 2 ^ 53 \<Longrightarrow> int_to_double (numeral k) = Inr (Fin (numeral k))"
  using int_to_double_small [of "numeral k"] by simp

lemma round_double_half_5: "round_double (5 / 2) = Fin (5 / 2)"
  by (rule round_double_representable [where m = 5 and e = "- 1"]) (simp_all add: power_int_minus)

lemma round_double_19_8: "round_double (19 / 8) = Fin (19 / 8)"
  by (rule round_double_representable [where m = 19 and e = "- 3"]) (simp_all add: power_int_minus)

lemma round_double_1e16n: "round_double 10000000000000000 = Fin 10000000000000000"
  by (rule round_double_representable [where m = 152587890625 and e = 16]) simp_all

lemma round_double_1e16n_plus_1: "round_double 10000000000000001 = Fin 10000000000000000"
  using round_double_1e16_plus_1 by simp

lemmas double_eval =
  round_double_0 round_double_1 round_double_numeral int_to_double_1 int_to_double_numeral
  round_double_half_5 round_double_19_8 round_double_1e16n round_double_1e16n_plus_1

section \<open>Properties of AverageMeter\<close>

lemma AverageMeter_updates_fold:
  assumes "AverageMeter_updates m0 us = Inr m"
  shows "am_count m = am_count m0 + (\<Sum>(v, n)\<leftarrow>us. n) \<and>
         (\<exists>ps. update_products us = Inr ps \<and>
               am_total m = foldl double_add (am_total m0) ps)"
  using assms
proof (induction m0 us rule: AverageMeter_updates.induct)
  case (1 self)
  then show ?case by simp
next
  case (2 self v n us)
  from 2(2) obtain fn where fn: "int_to_double n = Inr fn"
    by (auto simp: AverageMeter_update_def split: sum.splits)
  let ?self' = "self\<lparr>am_total := double_add (am_total self) (double_mul v fn),
                       am_count := am_count self + n\<rparr>"
  have up: "AverageMeter_update self v n = Inr ?self'"
    by (simp add: AverageMeter_update_def fn)
  with 2(2) have rest: "AverageMeter_updates ?self' us = Inr m" by simp
  from 2(1) [OF up rest] obtain ps where
    c: "am_count m = am_count ?self' + (\<Sum>(v, n)\<leftarrow>us. n)" and
    ps: "update_products us = Inr ps" and
    t: "am_total m = foldl double_add (am_total ?self') ps"
    by blast
  have "update_products ((v, n) # us) = Inr (double_mul v fn # ps)"
    by (simp add: fn ps)
  moreover have "am_total m = foldl double_add (am_total self) (double_mul v fn # ps)"
    using t by simp
  moreover have "am_count m = am_count self + (\<Sum>(v, n)\<leftarrow>(v, n) # us. n)"
    using c by simp
  ultimately show ?case by blast
qed

lemma AverageMeter_average_value:
  assumes "am_count m \<noteq> 0"
  shows "AverageMeter_average m =
           (case int_to_double (am_count m) of
              Inl e \<Rightarrow> Inl OverflowError
            | Inr fc \<Rightarrow> Inr (double_quotient (am_total m) fc))"
proof (cases "int_to_double (am_count m)")
  case (Inl e)
  then have "e = OverflowError" by (auto simp: int_to_double_def Let_def split: if_splits)
  with Inl assms show ?thesis by (simp add: AverageMeter_average_def)
next
  case (Inr fc)
  with assms have "fc \<noteq> Fin 0" by (rule int_to_double_nonzero)
  with Inr assms show ?thesis by (simp add: AverageMeter_average_def double_div_def)
qed

lemma AverageMeter_merge_loop_eq:
  "AverageMeter_merge_loop (c, t) ms =
     (c + sum_list (map am_count ms), foldl double_add t (map am_total ms))"
  by (induction ms arbitrary: c t) simp_all

lemma AverageMeter_merge_eq:
  "AverageMeter_merge m ms =
     AverageMeter_init (foldl double_add (am_total m) (map am_total ms))
                       (am_count m + sum_list (map am_count ms))"
  by (simp add: AverageMeter_merge_def AverageMeter_merge_loop_eq)

lemma ex_updates_2_3_4_1:
  "AverageMeter_updates (AverageMeter_init (Fin 0) 0) [(Fin 2, 3), (Fin 4, 1)]
     = Inr \<lparr>am_total = Fin 10, am_count = 4\<rparr>"
  by (simp add: AverageMeter_init_def AverageMeter_update_def double_eval)

text \<open>
  C4, as stated, fails in float arithmetic. After \<open>update(1e16, 1)\<close> and \<open>update(1.0, 1)\<close> the
  count is 2 and \<open>average()\<close> returns 5e15, which is not the sum of the
  \<open>value * num_examples\<close> divided by the count, 5000000000000000.5: the total has been
  rounded to 1e16. After two calls \<open>update(0.0, 2**1023)\<close> the count is \<open>2**1024 > 0\<close> and
  \<open>average()\<close> raises an OverflowError on \<open>float(self._count)\<close> instead of returning.
\<close>

theorem AverageMeter_average_exact_counterexample:
  "AverageMeter_updates (AverageMeter_init (Fin 0) 0) [(Fin (10 ^ 16), 1), (Fin 1, 1)]
     = Inr \<lparr>am_total = Fin (10 ^ 16), am_count = 2\<rparr> \<and>
   AverageMeter_average \<lparr>am_total = Fin (10 ^ 16), am_count = 2\<rparr> = Inr (Fin (5 * 10 ^ 15)) \<and>
   (5 * 10 ^ 15 :: rat) \<noteq> (10 ^ 16 * 1 + 1 * 1) / 2 \<and>
   AverageMeter_updates (AverageMeter_init (Fin 0) 0) [(Fin 0, 2 ^ 1023), (Fin 0, 2 ^ 1023)]
     = Inr \<lparr>am_total = Fin 0, am_count = 2 ^ 1024\<rparr> \<and>
   0 < am_count \<lparr>am_total = Fin 0, am_count = 2 ^ 1024\<rparr> \<and>
   AverageMeter_average \<lparr>am_total = Fin 0, am_count = 2 ^ 1024\<rparr> = Inl OverflowError"
proof -
  have 1: "AverageMeter_updates (AverageMeter_init (Fin 0) 0) [(Fin (10 ^ 16), 1), (Fin 1, 1)]
     = Inr \<lparr>am_total = Fin (10 ^ 16), am_count = 2\<rparr>"
    by (simp add: AverageMeter_init_def AverageMeter_update_def double_eval)
  have 2: "AverageMeter_average \<lparr>am_total = Fin (10 ^ 16), am_count = 2\<rparr>
             = Inr (Fin (5 * 10 ^ 15))"
    by (simp add: AverageMeter_average_def double_div_def double_eval)
  have 3: "(5 * 10 ^ 15 :: rat) \<noteq> (10 ^ 16 * 1 + 1 * 1) / 2" by simp
  have 4: "AverageMeter_updates (AverageMeter_init (Fin 0) 0)
             [(Fin 0, 2 ^ 1023), (Fin 0, 2 ^ 1023)]
     = Inr \<lparr>am_total = Fin 0, am_count = 2 ^ 1024\<rparr>"
    using int_to_double_2p1023
    by (simp add: AverageMeter_init_def AverageMeter_update_def round_double_0)
  have 5: "AverageMeter_average \<lparr>am_total = Fin 0, am_count = 2 ^ 1024\<rparr> = Inl OverflowError"
    using int_to_double_overflow by (simp add: AverageMeter_average_def)
  from 1 2 3 4 5 show ?thesis by simp
qed

text \<open>
  C4, amended. For every sequence of \<open>update(value, num_examples)\<close> calls on a fresh meter
  that all return, the count is the sum of the \<open>num_examples\<close>, and the total is the float
  sum, accumulated call by call from 0.0, of the float products \<open>value * num_examples\<close>.
  When the count is positive, \<open>average()\<close> returns the float quotient of the total by
  \<open>float(count)\<close>, or raises an OverflowError when the count is too large for a float; when
  the count is 0, both \<open>average()\<close> and \<open>sum()\<close> raise EmptyMeterError.
\<close>

theorem AverageMeter_average_after_updates:
  assumes "AverageMeter_updates (AverageMeter_init (Fin 0) 0) us = Inr m"
  shows "am_count m = (\<Sum>(v, n)\<leftarrow>us. n) \<and>
         (\<exists>ps. update_products us = Inr ps \<and> am_total m = foldl double_add (Fin 0) ps) \<and>
         (0 < am_count m \<longrightarrow>
            AverageMeter_average m =
              (case int_to_double (am_count m) of
                 Inl e \<Rightarrow> Inl OverflowError
               | Inr fc \<Rightarrow> Inr (double_quotient (am_total m) fc))) \<and>
         (am_count m = 0 \<longrightarrow>
            AverageMeter_average m = Inl EmptyMeterError \<and>
            AverageMeter_sum m = Inl EmptyMeterError)"
proof -
  from AverageMeter_updates_fold [OF assms]
  have "am_count m = (\<Sum>(v, n)\<leftarrow>us. n)"
    and "\<exists>ps. update_products us = Inr ps \<and> am_total m = foldl double_add (Fin 0) ps"
    by (simp_all add: AverageMeter_init_def)
  moreover have "0 < am_count m \<longrightarrow>
            AverageMeter_average m =
              (case int_to_double (am_count m) of
                 Inl e \<Rightarrow> Inl OverflowError
               | Inr fc \<Rightarrow> Inr (double_quotient (am_total m) fc))"
    using AverageMeter_average_value [of m] by simp
  moreover have "am_count m = 0 \<longrightarrow>
            AverageMeter_average m = Inl EmptyMeterError \<and>
            AverageMeter_sum m = Inl EmptyMeterError"
    by (simp add: AverageMeter_average_def AverageMeter_sum_def)
  ultimately show ?thesis by blast
qed

theorem AverageMeter_average_after_updates_witness:
  "AverageMeter_updates (AverageMeter_init (Fin 0) 0) [(Fin 2, 3), (Fin 4, 1)]
     = Inr \<lparr>am_total = Fin 10, am_count = 4\<rparr> \<and>
   AverageMeter_average \<lparr>am_total = Fin 10, am_count = 4\<rparr> = Inr (Fin (5 / 2)) \<and>
   AverageMeter_updates (AverageMeter_init (Fin 0) 0) [] = Inr \<lparr>am_total = Fin 0, am_count = 0\<rparr> \<and>
   AverageMeter_average \<lparr>am_total = Fin 0, am_count = 0\<rparr> = Inl EmptyMeterError \<and>
   AverageMeter_sum \<lparr>am_total = Fin 0, am_count = 0\<rparr> = Inl EmptyMeterError"
proof -
  have h0: "AverageMeter_updates (AverageMeter_init (Fin 0) 0) []
              = Inr \<lparr>am_total = Fin 0, am_count = 0\<rparr>"
    by (simp add: AverageMeter_init_def)
  note a = AverageMeter_average_after_updates [OF ex_updates_2_3_4_1]
  note b = AverageMeter_average_after_updates [OF h0]
  from a have "AverageMeter_average \<lparr>am_total = Fin 10, am_count = 4\<rparr> = Inr (Fin (5 / 2))"
    by (simp add: double_eval)
  moreover from b have "AverageMeter_average \<lparr>am_total = Fin 0, am_count = 0\<rparr> = Inl EmptyMeterError"
    and "AverageMeter_sum \<lparr>am_total = Fin 0, am_count = 0\<rparr> = Inl EmptyMeterError"
    by simp_all
  ultimately show ?thesis using ex_updates_2_3_4_1 h0 by blast
qed

text \<open>
  C5, as stated, fails in float arithmetic: the merged total depends on the order of the
  meters. With totals 1e16, 1.0 and -1e16, merging the second and the third into the first
  gives the total 0.0, and merging the first and the second into the third gives 1.0.
\<close>

theorem AverageMeter_merge_order_counterexample:
  "mset [AverageMeter_init (Fin (10 ^ 16)) 1, AverageMeter_init (Fin 1) 1,
         AverageMeter_init (Fin (- (10 ^ 16))) 1]
     = mset [AverageMeter_init (Fin (- (10 ^ 16))) 1, AverageMeter_init (Fin (10 ^ 16)) 1,
             AverageMeter_init (Fin 1) 1] \<and>
   AverageMeter_merge (AverageMeter_init (Fin (10 ^ 16)) 1)
       [AverageMeter_init (Fin 1) 1, AverageMeter_init (Fin (- (10 ^ 16))) 1]
     = AverageMeter_init (Fin 0) 3 \<and>
   AverageMeter_merge (AverageMeter_init (Fin (- (10 ^ 16))) 1)
       [AverageMeter_init (Fin (10 ^ 16)) 1, AverageMeter_init (Fin 1) 1]
     = AverageMeter_init (Fin 1) 3 \<and>
   AverageMeter_merge (AverageMeter_init (Fin (10 ^ 16)) 1)
       [AverageMeter_init (Fin 1) 1, AverageMeter_init (Fin (- (10 ^ 16))) 1]
     \<noteq> AverageMeter_merge (AverageMeter_init (Fin (- (10 ^ 16))) 1)
         [AverageMeter_init (Fin (10 ^ 16)) 1, AverageMeter_init (Fin 1) 1]"
  by (simp add: AverageMeter_merge_eq AverageMeter_init_def double_eval)

text \<open>
  C5, amended. \<open>merge\<close> sums the counts and adds the totals in float arithmetic, from the
  total of the receiver through the meters in their order: merging (count 5, total 10) with
  (count 3, total 9) gives (count 8, total 19), of average 2.375. The merged count does not
  depend on the order of the meters, the receiver included; merging two meters gives the
  same count and total whichever is the receiver; and merging in two steps gives the same
  count and total as merging all at once, in the same order.
\<close>

theorem AverageMeter_merge_sums:
  "am_count (AverageMeter_merge m ms) = am_count m + sum_list (map am_count ms) \<and>
   am_total (AverageMeter_merge m ms) = foldl double_add (am_total m) (map am_total ms) \<and>
   AverageMeter_merge (AverageMeter_init (Fin 10) 5) [AverageMeter_init (Fin 9) 3]
     = AverageMeter_init (Fin 19) 8 \<and>
   AverageMeter_average
       (AverageMeter_merge (AverageMeter_init (Fin 10) 5) [AverageMeter_init (Fin 9) 3])
     = Inr (Fin 2.375) \<and>
   (mset (m # ms) = mset (m' # ms') \<longrightarrow>
      am_count (AverageMeter_merge m ms) = am_count (AverageMeter_merge m' ms')) \<and>
   AverageMeter_merge m [m'] = AverageMeter_merge m' [m] \<and>
   AverageMeter_merge (AverageMeter_merge m ms) ms' = AverageMeter_merge m (ms @ ms')"
proof -
  have perm: "am_count (AverageMeter_merge m ms) = am_count (AverageMeter_merge m' ms')"
    if "mset (m # ms) = mset (m' # ms')"
  proof -
    have "sum_list (map am_count (m # ms)) = sum_list (map am_count (m' # ms'))"
      using that by (metis mset_map sum_mset_sum_list)
    then show ?thesis by (simp add: AverageMeter_merge_eq AverageMeter_init_def)
  qed
  have comm: "AverageMeter_merge m [m'] = AverageMeter_merge m' [m]"
    by (simp add: AverageMeter_merge_eq AverageMeter_init_def double_add_commute [of "am_total m"])
  have ex: "AverageMeter_merge (AverageMeter_init (Fin 10) 5) [AverageMeter_init (Fin 9) 3]
     = AverageMeter_init (Fin 19) 8"
    by (simp add: AverageMeter_merge_eq AverageMeter_init_def double_eval)
  have avg: "AverageMeter_average (AverageMeter_init (Fin 19) 8) = Inr (Fin 2.375)"
    by (simp add: AverageMeter_average_def AverageMeter_init_def double_div_def double_eval)
  show ?thesis
    using perm comm avg
    by (simp add: ex) (simp add: AverageMeter_merge_eq AverageMeter_init_def)
qed

theorem AverageMeter_merge_sums_witness:
  "mset [AverageMeter_init (Fin 10) 5, AverageMeter_init (Fin 9) 3, AverageMeter_init (Fin 1) 2]
     = mset [AverageMeter_init (Fin 1) 2, AverageMeter_init (Fin 10) 5, AverageMeter_init (Fin 9) 3] \<and>
   am_count (AverageMeter_merge (AverageMeter_init (Fin 10) 5)
               [AverageMeter_init (Fin 9) 3, AverageMeter_init (Fin 1) 2])
     = am_count (AverageMeter_merge (AverageMeter_init (Fin 1) 2)
                   [AverageMeter_init (Fin 10) 5, AverageMeter_init (Fin 9) 3])"
proof -
  have h: "mset (AverageMeter_init (Fin 10) 5 # [AverageMeter_init (Fin 9) 3, AverageMeter_init (Fin 1) 2])
             = mset (AverageMeter_init (Fin 1) 2 # [AverageMeter_init (Fin 10) 5, AverageMeter_init (Fin 9) 3])"
    by (simp add: add.commute add.left_commute)
  from AverageMeter_merge_sums
         [of "AverageMeter_init (Fin 10) 5" "[AverageMeter_init (Fin 9) 3, AverageMeter_init (Fin 1) 2]"
             "AverageMeter_init (Fin 1) 2" "[AverageMeter_init (Fin 10) 5, AverageMeter_init (Fin 9) 3]"] h
  show ?thesis by blast
qed

section \<open>Properties of GenericHistory\<close>

lemma deque_append_drop:
  assumes "0 < m" "length d \<le> nat m"
  shows "deque_append m d x = drop (Suc (length d) - nat m) (d @ [x])"
proof (cases "int (Suc (length d)) > m")
  case True
  with assms have "Suc (length d) - nat m = Suc 0" by linarith
  moreover have "drop (Suc 0) (d @ [x]) = tl (d @ [x])" by (simp only: drop_Suc drop_0)
  ultimately show ?thesis
    using True by (simp only: deque_append_def Let_def length_append_singleton if_True)
next
  case False
  then have "Suc (length d) - nat m = 0" by linarith
  with False show ?thesis by (simp add: deque_append_def)
qed

lemma drop_append_le: "k \<le> length A \<Longrightarrow> drop k A @ P = drop k (A @ P)"
  by simp

lemma add_values_history:
  assumes "0 < gh_max_size h" "length (gh_history h) \<le> nat (gh_max_size h)"
  shows "gh_history (add_values h calls) =
           drop (length (gh_history h) + length calls - nat (gh_max_size h))
                (gh_history h @ map (\<lambda>(v, s). (s, v)) calls)
         \<and> gh_max_size (add_values h calls) = gh_max_size h"
  using assms
proof (induction h calls rule: add_values.induct)
  case (1 self)
  then show ?case by simp
next
  case (2 self v s calls)
  let ?h' = "add_value self v s"
  let ?m = "nat (gh_max_size self)"
  let ?H = "gh_history self"
  let ?P = "map (\<lambda>(v, s). (s, v)) calls"
  define k where "k = Suc (length ?H) - ?m"
  have h': "gh_history ?h' = drop k (?H @ [(s, v)])"
    and m': "gh_max_size ?h' = gh_max_size self"
    using 2(2,3) by (simp_all add: add_value_def deque_append_drop k_def)
  have len: "length (gh_history ?h') = Suc (length ?H) - k" by (simp add: h')
  have len_le: "length (gh_history ?h') \<le> ?m" using 2(3) by (simp add: len k_def)
  have IH: "gh_history (add_values ?h' calls) =
           drop (length (gh_history ?h') + length calls - ?m) (gh_history ?h' @ ?P)"
    and M: "gh_max_size (add_values ?h' calls) = gh_max_size self"
    using 2(1) 2(2) len_le m' by simp_all
  have kle: "k \<le> length (?H @ [(s, v)])" by (simp add: k_def)
  have app: "gh_history ?h' @ ?P = drop k ((?H @ [(s, v)]) @ ?P)"
    unfolding h' using kle by (rule drop_append_le)
  have idx: "length (gh_history ?h') + length calls - ?m + k
               = length ?H + length ((v, s) # calls) - ?m"
    using 2(3) by (simp add: len k_def)
  have "gh_history (add_values self ((v, s) # calls)) = gh_history (add_values ?h' calls)"
    by simp
  also have "\<dots> = drop (length (gh_history ?h') + length calls - ?m + k) ((?H @ [(s, v)]) @ ?P)"
    by (simp only: IH app drop_drop)
  also have "\<dots> = drop (length ?H + length ((v, s) # calls) - ?m)
                      (?H @ map (\<lambda>(v, s). (s, v)) ((v, s) # calls))"
    by (simp only: idx) simp
  finally show ?case using M by simp
qed

text \<open>
  C8. Constructing a \<open>GenericHistory\<close> with \<open>max_size \<le> 0\<close> raises a ValueError. For a
  positive \<open>max_size\<close> m and any sequence of n \<open>add_value(value, step)\<close> calls on the freshly
  constructed history, the retained history is the last min(n, m) pairs (step, value), in
  the order of the calls: the oldest entries are the ones evicted.
\<close>

theorem GenericHistory_keeps_last_max_size:
  fixes calls :: "('v \<times> int option) list" and elements :: "(int option \<times> 'v) list"
  shows "(m \<le> 0 \<longrightarrow> GenericHistory_init name elements m = Inl ValueError) \<and>
         (0 < m \<longrightarrow>
           (\<exists>h. GenericHistory_init name [] m = Inr h \<and>
                get_recent_history (add_values h calls) =
                  drop (length calls - min (length calls) (nat m))
                       (map (\<lambda>(v, s). (s, v)) calls) \<and>
                length (get_recent_history (add_values h calls)) = min (length calls) (nat m)))"
proof (intro conjI impI)
  assume "m \<le> 0"
  then show "GenericHistory_init name elements m = Inl ValueError"
    by (simp add: GenericHistory_init_def)
next
  assume m: "0 < m"
  define h :: "'v GenericHistory"
    where "h = \<lparr>gh_name = name, gh_history = [], gh_max_size = m\<rparr>"
  have init: "GenericHistory_init name [] m = Inr h"
    using m by (simp add: GenericHistory_init_def deque_init_def h_def)
  have "gh_history (add_values h calls) =
          drop (length calls - nat m) (map (\<lambda>(v, s). (s, v)) calls)"
    using add_values_history [of h calls] m by (simp add: h_def)
  moreover have "length calls - min (length calls) (nat m) = length calls - nat m" by simp
  ultimately have rec: "get_recent_history (add_values h calls) =
      drop (length calls - min (length calls) (nat m)) (map (\<lambda>(v, s). (s, v)) calls)"
    by (simp only: get_recent_history_def)
  have "length (get_recent_history (add_values h calls)) = min (length calls) (nat m)"
    by (simp only: rec) auto
  with init rec show "\<exists>h. GenericHistory_init name [] m = Inr h \<and>
                get_recent_history (add_values h calls) =
                  drop (length calls - min (length calls) (nat m))
                       (map (\<lambda>(v, s). (s, v)) calls) \<and>
                length (get_recent_history (add_values h calls)) = min (length calls) (nat m)"
    by blast
qed

theorem GenericHistory_keeps_last_max_size_witness:
  "GenericHistory_init ''loss'' [] 0 = (Inl ValueError :: error + string GenericHistory) \<and>
   (\<exists>h. GenericHistory_init ''loss'' [] 2 = Inr h \<and>
        get_recent_history (add_values h [(''a'', Some 0), (''b'', None), (''c'', Some 2)]) =
          [(None, ''b''), (Some 2, ''c'')])"
  using GenericHistory_keeps_last_max_size
          [of 0 "''loss''" "[]" "[(''a'', Some 0), (''b'', None), (''c'', Some 2)]"]
        GenericHistory_keeps_last_max_size
          [of 2 "''loss''" "[]" "[(''a'', Some 0), (''b'', None), (''c'', Some 2)]"]
  by auto

section \<open>Properties of the state dicts of the meters\<close>

lemma AverageMeter_round_trip:
  "AverageMeter_load_state_dict x (AverageMeter_state_dict y) = y"
  by (simp add: AverageMeter_load_state_dict_def AverageMeter_state_dict_def)

lemma TensorMeter2_round_trip_equal:
  "TensorMeter2_equal (TensorMeter2_load_state_dict x (TensorMeter2_state_dict y)) y"
  by (simp add: TensorMeter2_load_state_dict_def TensorMeter2_state_dict_def
      TensorMeter2_equal_def LazyFlattedTensor_init_def LazyFlattedTensor_values_def)

text \<open>
  C7. The round trip \<open>X.load_state_dict(Y.state_dict())\<close> into a fresh \<open>X\<close> is meant to rebuild
  \<open>Y\<close> exactly. For \<open>TensorMeter2\<close> it does not: with \<open>Y\<close> a fresh meter updated with the tensor
  [1, 2, 3], the loaded \<open>X\<close> satisfies \<open>X.equal(Y)\<close>, which compares the state dicts only, but
  its count is 0 where that of \<open>Y\<close> is 3, and \<open>X.mean()\<close> raises EmptyMeterError where
  \<open>Y.mean()\<close> returns 2.
\<close>

theorem TensorMeter2_round_trip_loses_count:
  "TensorMeter2_equal
     (TensorMeter2_load_state_dict (TensorMeter2_init None)
        (TensorMeter2_state_dict (TensorMeter2_update (TensorMeter2_init None) [1, 2, 3])))
     (TensorMeter2_update (TensorMeter2_init None) [1, 2, 3]) \<and>
   tm2_count (TensorMeter2_update (TensorMeter2_init None) [1, 2, 3]) = 3 \<and>
   tm2_count (TensorMeter2_load_state_dict (TensorMeter2_init None)
        (TensorMeter2_state_dict (TensorMeter2_update (TensorMeter2_init None) [1, 2, 3]))) = 0 \<and>
   TensorMeter2_mean (TensorMeter2_update (TensorMeter2_init None) [1, 2, 3]) = Inr (Num 2) \<and>
   TensorMeter2_mean (TensorMeter2_load_state_dict (TensorMeter2_init None)
        (TensorMeter2_state_dict (TensorMeter2_update (TensorMeter2_init None) [1, 2, 3])))
     = Inl EmptyMeterError"
  by (simp add: TensorMeter2_load_state_dict_def TensorMeter2_init_def LazyFlattedTensor_init_def
      LazyFlattedTensor_numel_def TensorMeter2_mean_def TensorMeter2_state_dict_def
      LazyFlattedTensor_values_def TensorMeter2_equal_def TensorMeter2_update_def
      LazyFlattedTensor_update_def tensor_mean_def)

text \<open>
  C10. \<open>TensorMeter2.load_state_dict\<close> replaces the stored values by the loaded ones and
  leaves the count as it was. Loaded into a freshly constructed meter, any state, empty or
  not, leaves the count at 0: the values are the loaded ones, and \<open>mean()\<close> raises
  EmptyMeterError.
\<close>

theorem TensorMeter2_load_state_dict_keeps_count:
  "tm2_count (TensorMeter2_load_state_dict self sd) = tm2_count self \<and>
   tm2_values (TensorMeter2_load_state_dict self sd) = sd \<and>
   tm2_count (TensorMeter2_load_state_dict (TensorMeter2_init None) sd) = 0 \<and>
   TensorMeter2_state_dict (TensorMeter2_load_state_dict (TensorMeter2_init None) sd) = sd \<and>
   TensorMeter2_mean (TensorMeter2_load_state_dict (TensorMeter2_init None) sd)
     = Inl EmptyMeterError"
  by (simp add: TensorMeter2_load_state_dict_def TensorMeter2_init_def LazyFlattedTensor_init_def
      LazyFlattedTensor_numel_def TensorMeter2_mean_def TensorMeter2_state_dict_def
      LazyFlattedTensor_values_def)

section \<open>Properties of PeriodicCondition\<close>

lemma PeriodicCondition_calls_eq:
  "PeriodicCondition_calls c n = map (\<lambda>k. (pc_step c + int k) mod pc_freq c = 0) [0..<n]"
proof (induction n arbitrary: c)
  case 0
  then show ?case by simp
next
  case (Suc n)
  have "[0..<Suc n] = 0 # map Suc [0..<n]"
    by (simp add: upt_conv_Cons map_Suc_upt del: upt_Suc)
  then show ?case
    by (simp add: PeriodicCondition_call_def Suc.IH comp_def add.assoc del: upt_Suc)
qed

text \<open>
  C2, as stated, fails: with the counter at 1 on the first call and the result
  \<open>counter % freq == 0\<close>, ten calls of a condition of frequency 3 would give
  False, False, True, \<dots>, not the True, False, False, True, \<dots> that the claim and the tests
  expect.
\<close>

theorem PeriodicCondition_counter_from_one_counterexample:
  "PeriodicCondition_calls \<lparr>pc_freq = 3, pc_step = 0\<rparr> 10
     = [True, False, False, True, False, False, True, False, False, True] \<and>
   PeriodicCondition_calls_as_worded \<lparr>pc_freq = 3, pc_step = 0\<rparr> 10
     = [False, False, True, False, False, True, False, False, True, False] \<and>
   PeriodicCondition_calls \<lparr>pc_freq = 3, pc_step = 0\<rparr> 10
     \<noteq> PeriodicCondition_calls_as_worded \<lparr>pc_freq = 3, pc_step = 0\<rparr> 10"
  by (simp add: eval_nat_numeral PeriodicCondition_call_def PeriodicCondition_call_as_worded_def)

text \<open>
  C2, amended. A \<open>PeriodicCondition(freq)\<close> with \<open>freq \<ge> 1\<close> reads its counter, which is 0 on
  the first call, returns whether \<open>counter % freq == 0\<close>, and increments the counter
  afterwards. So among any n calls the one of index k (from 0) is true exactly when k is a
  multiple of \<open>freq\<close>, that is on the calls 1, freq+1, 2\<cdot>freq+1, \<dots> counted from 1; ten calls
  with \<open>freq = 3\<close> give True, False, False, True, False, False, True, False, False, True.
\<close>

theorem PeriodicCondition_true_every_freq_calls:
  assumes "PeriodicCondition_init freq = Inr c"
  shows "PeriodicCondition_calls c n = map (\<lambda>k. int k mod freq = 0) [0..<n] \<and>
         (\<forall>k<n. PeriodicCondition_calls c n ! k \<longleftrightarrow> (\<exists>j. int k = j * freq))"
proof -
  from assms have c: "pc_freq c = freq" "pc_step c = 0" and f: "0 < freq"
    by (auto simp: PeriodicCondition_init_def split: if_splits)
  have 1: "PeriodicCondition_calls c n = map (\<lambda>k. int k mod freq = 0) [0..<n]"
    by (simp add: PeriodicCondition_calls_eq c)
  have "(int k mod freq = 0) \<longleftrightarrow> (\<exists>j. int k = j * freq)" for k
    by (auto simp: mod_eq_0_iff_dvd dvd_def mult.commute)
  with 1 show ?thesis by simp
qed

theorem PeriodicCondition_true_every_freq_calls_witness:
  "PeriodicCondition_init 3 = Inr \<lparr>pc_freq = 3, pc_step = 0\<rparr> \<and>
   PeriodicCondition_calls \<lparr>pc_freq = 3, pc_step = 0\<rparr> 10
     = [True, False, False, True, False, False, True, False, False, True]"
proof -
  have h: "PeriodicCondition_init 3 = Inr \<lparr>pc_freq = 3, pc_step = 0\<rparr>"
    by (simp add: PeriodicCondition_init_def)
  have "[0..<10] = [0, 1, 2, 3, 4, 5, 6, 7, 8, 9]" by (simp add: upt_rec)
  with PeriodicCondition_true_every_freq_calls [OF h, of 10] h show ?thesis by simp
qed

section \<open>Properties of the training loop\<close>

text \<open>
  C1. When the loss of the model output is NaN, \<open>VanillaTrainingLoop._train_one_batch\<close> fires
  exactly the events TRAIN_ITERATION_STARTED, TRAIN_FORWARD_COMPLETED and
  TRAIN_ITERATION_COMPLETED, in this order, and never TRAIN_BACKWARD_COMPLETED; it runs no
  backward pass, no gradient clipping and no optimizer step, and returns the output dict of
  the model.
\<close>

theorem train_one_batch_nan_skips_update:
  assumes "map_of (model batch) LOSS = Some loss" and "isnan loss"
  shows "fst (train_one_batch self model batch) =
           [Fire_event TRAIN_ITERATION_STARTED, Zero_grad (tl_set_grad_to_none self), Forward,
            Fire_event TRAIN_FORWARD_COMPLETED, Logger_warning,
            Fire_event TRAIN_ITERATION_COMPLETED] \<and>
         fired_events (fst (train_one_batch self model batch)) =
           [TRAIN_ITERATION_STARTED, TRAIN_FORWARD_COMPLETED, TRAIN_ITERATION_COMPLETED] \<and>
         Fire_event TRAIN_BACKWARD_COMPLETED \<notin> set (fst (train_one_batch self model batch)) \<and>
         Backward \<notin> set (fst (train_one_batch self model batch)) \<and>
         filter is_clip (fst (train_one_batch self model batch)) = [] \<and>
         Optimizer_step \<notin> set (fst (train_one_batch self model batch)) \<and>
         snd (train_one_batch self model batch) = Inr (model batch)"
  using assms by (simp add: train_one_batch_def Let_def)

theorem train_one_batch_nan_skips_update_witness:
  "map_of [(''loss'', NaN)] LOSS = Some NaN \<and> isnan NaN \<and>
   fired_events (fst (train_one_batch
       \<lparr>tl_tag = ''train'', tl_clip_grad_fn = Some Clip_grad_norm,
        tl_clip_grad_args = [PyInt 1, PyInt 2], tl_set_grad_to_none = False\<rparr>
       (\<lambda>b. [(''loss'', NaN)]) ()))
     = [TRAIN_ITERATION_STARTED, TRAIN_FORWARD_COMPLETED, TRAIN_ITERATION_COMPLETED] \<and>
   snd (train_one_batch
       \<lparr>tl_tag = ''train'', tl_clip_grad_fn = Some Clip_grad_norm,
        tl_clip_grad_args = [PyInt 1, PyInt 2], tl_set_grad_to_none = False\<rparr>
       (\<lambda>b. [(''loss'', NaN)]) ()) = Inr [(''loss'', NaN)]"
proof -
  let ?self = "\<lparr>tl_tag = ''train'', tl_clip_grad_fn = Some Clip_grad_norm,
        tl_clip_grad_args = [PyInt 1, PyInt 2], tl_set_grad_to_none = False\<rparr>"
  have h1: "map_of [(''loss'', NaN)] LOSS = Some NaN" by (simp add: LOSS_def)
  have h2: "isnan NaN" by (simp add: isnan_def)
  note nan = train_one_batch_nan_skips_update
      [where model = "\<lambda>b::unit. [(''loss'', NaN)]" and batch = "()" and loss = NaN
         and self = ?self, OF h1 h2]
  from nan h1 h2 show ?thesis by blast
qed

text \<open>
  C3, as stated, fails: the claim has TRAIN_BACKWARD_COMPLETED fired before the gradients
  are clipped. With norm clipping configured and a loss of 1, the clipping function is
  called before the event is fired.
\<close>

theorem clip_before_backward_completed_counterexample:
  "fst (train_one_batch
       \<lparr>tl_tag = ''train'', tl_clip_grad_fn = Some Clip_grad_norm,
        tl_clip_grad_args = [PyInt 1, PyInt 2], tl_set_grad_to_none = False\<rparr>
       (\<lambda>b. [(''loss'', Num 1)]) ())
     = [Fire_event TRAIN_ITERATION_STARTED, Zero_grad False, Forward,
        Fire_event TRAIN_FORWARD_COMPLETED, Backward,
        Clip_grad Clip_grad_norm [PyInt 1, PyInt 2],
        Fire_event TRAIN_BACKWARD_COMPLETED, Optimizer_step,
        Fire_event TRAIN_ITERATION_COMPLETED] \<and>
   \<not> precedes ((=) (Fire_event TRAIN_BACKWARD_COMPLETED)) is_clip
       (fst (train_one_batch
         \<lparr>tl_tag = ''train'', tl_clip_grad_fn = Some Clip_grad_norm,
          tl_clip_grad_args = [PyInt 1, PyInt 2], tl_set_grad_to_none = False\<rparr>
         (\<lambda>b. [(''loss'', Num 1)]) ()))"
  by (simp add: train_one_batch_def LOSS_def isnan_def clip_effects_def precedes_def)

text \<open>The sibling loop has the same order: it clips, then fires the event.\<close>

lemma accelerate_clips_before_backward_completed:
  assumes "map_of (model batch) LOSS = Some loss" and "tl_clip_grad_fn self = Some fn"
  shows "precedes is_clip ((=) (Fire_event TRAIN_BACKWARD_COMPLETED))
           (fst (accelerate_train_one_batch self model batch))"
  using assms
  by (simp add: accelerate_train_one_batch_def Let_def clip_effects_def precedes_def)

text \<open>
  C3, amended. When the loss is not NaN, the effects of one iteration are, in order: the
  backward pass, the configured gradient clipping (when one is configured), the event
  TRAIN_BACKWARD_COMPLETED, the optimizer step, the event TRAIN_ITERATION_COMPLETED. The
  clipping comes after the backward pass and before TRAIN_BACKWARD_COMPLETED is fired.
\<close>

theorem train_one_batch_effect_order:
  assumes "map_of (model batch) LOSS = Some loss" and "\<not> isnan loss"
  shows "fst (train_one_batch self model batch) =
           [Fire_event TRAIN_ITERATION_STARTED, Zero_grad (tl_set_grad_to_none self), Forward,
            Fire_event TRAIN_FORWARD_COMPLETED, Backward] @ clip_effects self @
           [Fire_event TRAIN_BACKWARD_COMPLETED, Optimizer_step,
            Fire_event TRAIN_ITERATION_COMPLETED] \<and>
         precedes ((=) Backward) ((=) (Fire_event TRAIN_BACKWARD_COMPLETED))
           (fst (train_one_batch self model batch)) \<and>
         precedes ((=) (Fire_event TRAIN_BACKWARD_COMPLETED)) ((=) Optimizer_step)
           (fst (train_one_batch self model batch)) \<and>
         precedes ((=) Optimizer_step) ((=) (Fire_event TRAIN_ITERATION_COMPLETED))
           (fst (train_one_batch self model batch)) \<and>
         (tl_clip_grad_fn self \<noteq> None \<longrightarrow>
            precedes ((=) Backward) is_clip (fst (train_one_batch self model batch)) \<and>
            precedes is_clip ((=) (Fire_event TRAIN_BACKWARD_COMPLETED))
              (fst (train_one_batch self model batch)))"
  using assms
  by (cases "tl_clip_grad_fn self")
     (simp_all add: train_one_batch_def Let_def clip_effects_def precedes_def)

theorem train_one_batch_effect_order_witness:
  "map_of [(''loss'', Num 1)] LOSS = Some (Num 1) \<and> \<not> isnan (Num 1) \<and>
   precedes is_clip ((=) (Fire_event TRAIN_BACKWARD_COMPLETED))
     (fst (train_one_batch
         \<lparr>tl_tag = ''train'', tl_clip_grad_fn = Some Clip_grad_value,
          tl_clip_grad_args = [PyFloat 0.25], tl_set_grad_to_none = True\<rparr>
         (\<lambda>b. [(''loss'', Num 1)]) ()))"
proof -
  let ?self = "\<lparr>tl_tag = ''train'', tl_clip_grad_fn = Some Clip_grad_value,
          tl_clip_grad_args = [PyFloat 0.25], tl_set_grad_to_none = True\<rparr>"
  have h1: "map_of [(''loss'', Num 1)] LOSS = Some (Num 1)" by (simp add: LOSS_def)
  have h2: "\<not> isnan (Num 1)" by (simp add: isnan_def)
  have h3: "tl_clip_grad_fn ?self \<noteq> None" by simp
  note order = train_one_batch_effect_order
      [where model = "\<lambda>b::unit. [(''loss'', Num 1)]" and batch = "()" and loss = "Num 1"
         and self = ?self, OF h1 h2]
  from order h3 have "precedes is_clip ((=) (Fire_event TRAIN_BACKWARD_COMPLETED))
     (fst (train_one_batch ?self (\<lambda>b. [(''loss'', Num 1)]) ()))"
    by blast
  with h1 h2 show ?thesis by blast
qed

text \<open>
  C6. At the construction of the loop, \<open>{"name": "clip_grad_value"}\<close> resolves to the value
  clipping function with the arguments (0.25,), \<open>{"name": "clip_grad_norm"}\<close> to the norm
  clipping function with the arguments (1, 2), and an absent or empty configuration to no
  clipping. A configuration whose name is neither of the two makes the constructor raise a
  ValueError: no loop object exists that could process a batch.
\<close>

theorem setup_clip_grad_resolution:
  "VanillaTrainingLoop_init sg tag (Some [(''name'', PyStr ''clip_grad_value'')])
     = Inr \<lparr>tl_tag = tag, tl_clip_grad_fn = Some Clip_grad_value,
            tl_clip_grad_args = [PyFloat 0.25], tl_set_grad_to_none = sg\<rparr> \<and>
   VanillaTrainingLoop_init sg tag (Some [(''name'', PyStr ''clip_grad_norm'')])
     = Inr \<lparr>tl_tag = tag, tl_clip_grad_fn = Some Clip_grad_norm,
            tl_clip_grad_args = [PyInt 1, PyInt 2], tl_set_grad_to_none = sg\<rparr> \<and>
   VanillaTrainingLoop_init sg tag None
     = Inr \<lparr>tl_tag = tag, tl_clip_grad_fn = None, tl_clip_grad_args = [],
            tl_set_grad_to_none = sg\<rparr> \<and>
   VanillaTrainingLoop_init sg tag (Some [])
     = Inr \<lparr>tl_tag = tag, tl_clip_grad_fn = None, tl_clip_grad_args = [],
            tl_set_grad_to_none = sg\<rparr> \<and>
   (map_of d ''name'' = Some name \<and> name \<noteq> PyStr ''clip_grad_value'' \<and>
    name \<noteq> PyStr ''clip_grad_norm'' \<longrightarrow>
      setup_clip_grad d = Inl ValueError \<and>
      VanillaTrainingLoop_init sg tag (Some d) = Inl ValueError)"
  by (auto simp: VanillaTrainingLoop_init_def setup_clip_grad_def dict_get_def)

theorem setup_clip_grad_resolution_witness:
  "map_of [(''name'', PyStr ''bogus'')] ''name'' = Some (PyStr ''bogus'') \<and>
   PyStr ''bogus'' \<noteq> PyStr ''clip_grad_value'' \<and> PyStr ''bogus'' \<noteq> PyStr ''clip_grad_norm'' \<and>
   VanillaTrainingLoop_init False ''train'' (Some [(''name'', PyStr ''bogus'')]) = Inl ValueError"
proof -
  have h: "map_of [(''name'', PyStr ''bogus'')] ''name'' = Some (PyStr ''bogus'') \<and>
           PyStr ''bogus'' \<noteq> PyStr ''clip_grad_value'' \<and>
           PyStr ''bogus'' \<noteq> PyStr ''clip_grad_norm''"
    by simp
  from setup_clip_grad_resolution
         [of False "''train''" "[(''name'', PyStr ''bogus'')]" "PyStr ''bogus''"] h
  show ?thesis by blast
qed

section \<open>Properties of BatchLoadingTimer\<close>




end
